theory Spec2Isabelle
  imports Main
begin

section \<open>Python strings\<close>

text \<open>
  A Python \<open>str\<close> is a sequence of Unicode code points, and \<open>len\<close>, indexing, \<open>split\<close>
  and the \<open>re\<close> module all count code points. A text is therefore a list of code
  points (natural numbers). The character tables of the interpreter are embedded for
  the ASCII and Latin-1 range; the white-space table is complete. A code point above
  U+00FF is treated as a caseless symbol that is not a word character, which is what
  the one such character named in the sources, the bullet U+2022, is.
\<close>

type_synonym pystr = "nat list"

definition u :: "string \<Rightarrow> pystr" where
  "u s = map of_char s"

definition is_space :: "nat \<Rightarrow> bool" where
  \<comment> \<open>\<open>str.isspace\<close>, the separators of \<open>str.split()\<close> and \<open>str.strip()\<close>\<close>
  "is_space c \<longleftrightarrow>
     (9 \<le> c \<and> c \<le> 13) \<or> (28 \<le> c \<and> c \<le> 32) \<or> c = 133 \<or> c = 160 \<or> c = 5760 \<or>
     (8192 \<le> c \<and> c \<le> 8202) \<or> c = 8232 \<or> c = 8233 \<or> c = 8239 \<or> c = 8287 \<or> c = 12288"

definition is_upper :: "nat \<Rightarrow> bool" where
  \<comment> \<open>\<open>str.isupper\<close> of a one-character string\<close>
  "is_upper c \<longleftrightarrow> (65 \<le> c \<and> c \<le> 90) \<or> (192 \<le> c \<and> c \<le> 214) \<or> (216 \<le> c \<and> c \<le> 222)"

definition is_lower :: "nat \<Rightarrow> bool" where
  "is_lower c \<longleftrightarrow>
     (97 \<le> c \<and> c \<le> 122) \<or> c = 170 \<or> c = 181 \<or> c = 186 \<or> (223 \<le> c \<and> c \<le> 246) \<or>
     (248 \<le> c \<and> c \<le> 255)"

definition is_digit :: "nat \<Rightarrow> bool" where
  \<comment> \<open>decimal digits and the other numeric characters of the range\<close>
  "is_digit c \<longleftrightarrow> (48 \<le> c \<and> c \<le> 57) \<or> c = 178 \<or> c = 179 \<or> c = 185 \<or> (188 \<le> c \<and> c \<le> 190)"

definition is_word :: "nat \<Rightarrow> bool" where
  \<comment> \<open>the class \<open>\w\<close> of \<open>re\<close> on \<open>str\<close> patterns: alphanumeric or underscore\<close>
  "is_word c \<longleftrightarrow> is_upper c \<or> is_lower c \<or> is_digit c \<or> c = 95"

definition lower_cp :: "nat \<Rightarrow> nat" where
  "lower_cp c = (if is_upper c then c + 32 else c)"

definition upper_cp :: "nat \<Rightarrow> nat" where
  \<comment> \<open>used on the first letter of a lexicon entry only; the letters whose capital is
      longer or lies outside the range are left alone\<close>
  "upper_cp c = (if (97 \<le> c \<and> c \<le> 122) \<or> (224 \<le> c \<and> c \<le> 246) \<or> (248 \<le> c \<and> c \<le> 254)
                 then c - 32 else c)"

definition lower :: "pystr \<Rightarrow> pystr" where
  "lower s = map lower_cp s"

fun capitalize :: "pystr \<Rightarrow> pystr" where
  "capitalize [] = []"
| "capitalize (c # cs) = upper_cp c # map lower_cp cs"

fun startswith :: "pystr \<Rightarrow> pystr \<Rightarrow> bool" where
  \<comment> \<open>\<open>startswith s p\<close> is \<open>s.startswith(p)\<close>\<close>
  "startswith s [] = True"
| "startswith [] (p # ps) = False"
| "startswith (c # cs) (p # ps) = (c = p \<and> startswith cs ps)"

definition endswith :: "pystr \<Rightarrow> pystr \<Rightarrow> bool" where
  "endswith s p = startswith (rev s) (rev p)"

definition strip :: "pystr \<Rightarrow> pystr" where
  "strip s = rev (dropWhile is_space (rev (dropWhile is_space s)))"

definition strip_chars :: "pystr \<Rightarrow> nat \<Rightarrow> pystr" where
  \<comment> \<open>\<open>s.strip(c)\<close> for a one-character argument\<close>
  "strip_chars s c = rev (dropWhile (\<lambda>x. x = c) (rev (dropWhile (\<lambda>x. x = c) s)))"

fun split_go :: "pystr \<Rightarrow> pystr \<Rightarrow> pystr list" where
  "split_go cur [] = (if cur = [] then [] else [cur])"
| "split_go cur (c # cs) =
     (if is_space c then (if cur = [] then split_go [] cs else cur # split_go [] cs)
      else split_go (cur @ [c]) cs)"

definition split :: "pystr \<Rightarrow> pystr list" where
  \<comment> \<open>\<open>s.split()\<close>: the maximal runs of characters that are not white space\<close>
  "split s = split_go [] s"

fun split_on :: "nat \<Rightarrow> pystr \<Rightarrow> pystr list" where
  \<comment> \<open>\<open>s.split(d)\<close> for a one-character separator: empty pieces are kept\<close>
  "split_on d [] = [[]]"
| "split_on d (c # cs) =
     (if c = d then [] # split_on d cs
      else (c # hd (split_on d cs)) # tl (split_on d cs))"

fun contains :: "pystr \<Rightarrow> pystr \<Rightarrow> bool" where
  \<comment> \<open>\<open>contains s p\<close> is \<open>p in s\<close>\<close>
  "contains [] p = (p = [])"
| "contains (c # cs) p = (startswith (c # cs) p \<or> contains cs p)"

function str_of_nat :: "nat \<Rightarrow> pystr" where
  \<comment> \<open>the decimal numeral an f-string prints for a non-negative \<open>int\<close>\<close>
  "str_of_nat n = (if n < 10 then [48 + n] else str_of_nat (n div 10) @ [48 + n mod 10])"
  by pat_completeness auto
termination
  by (relation "measure (\<lambda>n. n)") auto

section \<open>Whole-word regular expressions\<close>

text \<open>
  Every pattern the text module builds has the shape \<open>r'\b' + w + r'\b'\<close> with
  \<open>re.IGNORECASE\<close>, where \<open>w\<close> is a lexicon entry of letters and spaces or an escaped
  keyword, so \<open>w\<close> is matched literally. A pattern character matches a text character
  when both have the same lower case; \<open>\b\<close> holds between two positions when exactly
  one of them holds a word character, the two ends of the text counting as not one.
\<close>

definition ci_eq :: "nat \<Rightarrow> nat \<Rightarrow> bool" where
  "ci_eq c p \<longleftrightarrow> lower_cp c = lower_cp p"

fun lit_match :: "pystr \<Rightarrow> pystr \<Rightarrow> bool" where
  \<comment> \<open>the literal \<open>w\<close> matches a prefix of the text, ignoring case\<close>
  "lit_match [] s = True"
| "lit_match (p # ps) [] = False"
| "lit_match (p # ps) (c # cs) = (ci_eq c p \<and> lit_match ps cs)"

fun word_at :: "nat option \<Rightarrow> bool" where
  "word_at None = False"
| "word_at (Some c) = is_word c"

definition boundary :: "nat option \<Rightarrow> nat option \<Rightarrow> bool" where
  \<comment> \<open>\<open>\b\<close> between the character before a position and the character at it\<close>
  "boundary a b \<longleftrightarrow> word_at a \<noteq> word_at b"

fun head_opt :: "pystr \<Rightarrow> nat option" where
  "head_opt [] = None"
| "head_opt (c # cs) = Some c"

definition last_matched :: "pystr \<Rightarrow> nat option \<Rightarrow> pystr \<Rightarrow> nat option" where
  \<comment> \<open>the character before the position at which a match of \<open>w\<close> ends\<close>
  "last_matched w prev s = (if w = [] then prev else head_opt (drop (length w - 1) s))"

definition match_at :: "pystr \<Rightarrow> nat option \<Rightarrow> pystr \<Rightarrow> bool" where
  \<comment> \<open>\<open>\bw\b\<close> matches at the start of \<open>s\<close>, which \<open>prev\<close> precedes in the text\<close>
  "match_at w prev s \<longleftrightarrow>
     boundary prev (head_opt s) \<and> lit_match w s \<and>
     boundary (last_matched w prev s) (head_opt (drop (length w) s))"

fun search_from :: "pystr \<Rightarrow> nat option \<Rightarrow> pystr \<Rightarrow> bool" where
  "search_from w prev [] = match_at w prev []"
| "search_from w prev (c # cs) = (match_at w prev (c # cs) \<or> search_from w (Some c) cs)"

definition search :: "pystr \<Rightarrow> pystr \<Rightarrow> bool" where
  \<comment> \<open>\<open>re.search(r'\b' + w + r'\b', text, re.IGNORECASE)\<close> finds a match\<close>
  "search w text = search_from w None text"

section \<open>ATS scorer\<close>

text \<open>
  \<open>calculate_ats_score(text, job_keywords=None)\<close> of \<open>text_enhancer.py\<close>. The report is
  the dictionary the function returns; \<open>keyword_match\<close> is \<open>None\<close> where the source
  stores the string \<open>"N/A"\<close>.

  The keyword percentage \<open>int((matched_keywords / len(job_keywords)) * 100)\<close> is computed
  in binary floating point, which is not embedded here: the scorer takes it as the
  parameter \<open>pct\<close>, applied to the two counts. The two means are \<open>int(x / 3)\<close> and
  \<open>int(x / 2)\<close> of an integer \<open>x\<close>: the float quotient of an integer below \<open>2^53\<close> by 2
  or 3 truncates to the integer quotient, which \<open>trunc_div\<close> computes.
\<close>

record score_report =
  overall :: int
  keyword_match :: "int option"
  format :: int
  length_score :: int
  suggestions :: "pystr list"

definition trunc_div :: "int \<Rightarrow> int \<Rightarrow> int" where
  \<comment> \<open>\<open>int(a / b)\<close>: the quotient rounded towards zero\<close>
  "trunc_div a b = (if 0 \<le> a then a div b else - ((- a) div b))"

definition sections :: "pystr list" where
  "sections = map u [''experience'', ''education'', ''skills'', ''summary'', ''objective'',
                     ''work'', ''contact'']"

definition is_bullet_mark :: "nat \<Rightarrow> bool" where
  \<comment> \<open>one match of the pattern \<open>r'\<bullet>|-|\*'\<close>: the bullet U+2022, a hyphen or an asterisk\<close>
  "is_bullet_mark c \<longleftrightarrow> c = 8226 \<or> c = 45 \<or> c = 42"

definition length_part :: "pystr \<Rightarrow> int \<times> pystr list" where
  "length_part text =
     (let word_count = length (split text) in
      if word_count < 300 then (60, [u ''Resume is too short. Aim for 400-800 words.''])
      else if word_count > 1000 then (70, [u ''Resume is too long. Aim for 400-800 words.''])
      else (100, []))"

definition format_score :: "pystr \<Rightarrow> int \<times> pystr list" where
  \<comment> \<open>the value of \<open>format_score\<close> before the clamp, and the suggestions added on the way\<close>
  "format_score text =
     (let (f1, s1) = (if count_list text 64 = 0
                      then (100 - 10, [u ''No email address detected.''])
                      else (100, []));
          found_sections = length (filter (\<lambda>section. search section text) sections);
          (f2, s2) = (if found_sections < 3
                      then (f1 - 20, s1 @ [u ''Not enough clear section headers detected. Include clear sections for Experience, Education, Skills, etc.''])
                      else (f1, s1));
          bullets = length (filter is_bullet_mark text)
      in if bullets < 5
         then (f2 - 10, s2 @ [u ''Not enough bullet points. Use bullets to highlight achievements and responsibilities.''])
         else (f2, s2))"

definition keyword_part :: "(nat \<Rightarrow> nat \<Rightarrow> nat) \<Rightarrow> pystr \<Rightarrow> pystr list option \<Rightarrow> int option \<times> pystr list" where
  \<comment> \<open>\<open>if job_keywords:\<close> holds for a list that is neither \<open>None\<close> nor empty\<close>
  "keyword_part pct text job_keywords =
     (case job_keywords of
        None \<Rightarrow> (None, [])
      | Some ks \<Rightarrow>
          if ks = [] then (None, [])
          else
            (let matched_keywords = length (filter (\<lambda>keyword. search keyword text) ks);
                 keyword_score = int (pct matched_keywords (length ks))
             in (Some keyword_score,
                 if keyword_score < 70
                 then [u ''Low keyword match with job description ('' @ str_of_nat (nat keyword_score)
                       @ u ''%). Try including more relevant keywords.'']
                 else [])))"

definition calculate_ats_score :: "(nat \<Rightarrow> nat \<Rightarrow> nat) \<Rightarrow> pystr \<Rightarrow> pystr list option \<Rightarrow> score_report" where
  "calculate_ats_score pct text job_keywords =
     (let (len, s1) = length_part text;
          (fs, s2) = format_score text;
          fmt = max 0 fs;
          (kw, s3) = keyword_part pct text job_keywords;
          ov = (case kw of
                  Some k \<Rightarrow> trunc_div (fmt + len + k) 3
                | None \<Rightarrow> trunc_div (fmt + len) 2);
          s4 = (if ov < 70
                then [u ''Overall ATS compatibility is low. Follow the suggestions to improve.'']
                else if ov < 85
                then [u ''Resume has moderate ATS compatibility. Make suggested improvements for better results.'']
                else [u ''Resume has good ATS compatibility.''])
      in \<lparr>overall = ov, keyword_match = kw, format = fmt, length_score = len,
          suggestions = s1 @ s2 @ s3 @ s4\<rparr>)"

section \<open>Templates\<close>

text \<open>
  The four template constants of \<open>resume_templates.py\<close> and the selection
  \<open>get_template(template_name="modern", dark_mode=False)\<close>. The dictionary \<open>templates\<close>
  is an association list; \<open>templates.get(key, MODERN_TEMPLATE)\<close> is its lookup with a
  default.
\<close>

definition MODERN_TEMPLATE :: pystr where
  "MODERN_TEMPLATE = u (''\<newline># {name}\<newline>'' @
       ''**{job_role}** | {email} | {phone} | {location}\<newline>\<newline>'' @
       ''## SUMMARY\<newline>{summary}\<newline>\<newline>## SKILLS\<newline>'' @
       ''{skills}\<newline>\<newline>## EXPERIENCE\<newline>'' @
       ''{experience}\<newline>\<newline>## EDUCATION\<newline>'' @
       ''{education}\<newline>\<newline>## CONTACT\<newline>'' @
       ''Email: {email}\<newline>Phone: {phone}\<newline>'' @
       ''Location: {location}\<newline>{links}\<newline>'')"

definition CLASSIC_TEMPLATE :: pystr where
  "CLASSIC_TEMPLATE = u (''\<newline>{name}\<newline>====================\<newline>'' @
       ''{job_role}\<newline>Contact: {email} | {phone} | {location}\<newline>'' @
       ''\<newline>SUMMARY\<newline>--------------------\<newline>'' @
       ''{summary}\<newline>\<newline>SKILLS\<newline>'' @
       ''--------------------\<newline>{skills}\<newline>\<newline>'' @
       ''EXPERIENCE\<newline>--------------------\<newline>'' @
       ''{experience}\<newline>\<newline>EDUCATION\<newline>'' @
       ''--------------------\<newline>{education}\<newline>\<newline>'' @
       ''CONTACT INFORMATION\<newline>--------------------\<newline>'' @
       ''Email: {email}\<newline>Phone: {phone}\<newline>'' @
       ''Address: {location}\<newline>{links}\<newline>'')"

definition MINIMALIST_TEMPLATE :: pystr where
  "MINIMALIST_TEMPLATE = u (''\<newline># {name}\<newline>{job_role} | {location}\<newline>'' @
       ''\<newline>**About Me**\<newline>{summary}\<newline>\<newline>'' @
       ''**Skills**\<newline>{skills}\<newline>\<newline>'' @
       ''**Experience**\<newline>{experience}\<newline>\<newline>'' @
       ''**Education**\<newline>{education}\<newline>\<newline>'' @
       ''**Contact**\<newline>{email} | {phone}\<newline>{links}\<newline>'')"

definition DARK_TEMPLATE :: pystr where
  "DARK_TEMPLATE = u (''\<newline># {name}\<newline>## {job_role}\<newline>'' @
       ''*{location}*\<newline>\<newline>### PROFESSIONAL SUMMARY\<newline>'' @
       ''{summary}\<newline>\<newline>### TECHNICAL SKILLS\<newline>'' @
       ''{skills}\<newline>\<newline>### PROFESSIONAL EXPERIENCE\<newline>'' @
       ''{experience}\<newline>\<newline>### EDUCATION\<newline>'' @
       ''{education}\<newline>\<newline>### CONTACT INFORMATION\<newline>'' @
       ''- Email: {email}\<newline>- Phone: {phone}\<newline>'' @
       ''- Location: {location}\<newline>{links}\<newline>'')"

definition templates :: "(pystr \<times> pystr) list" where
  "templates = [(u ''modern'', MODERN_TEMPLATE), (u ''classic'', CLASSIC_TEMPLATE),
                (u ''minimalist'', MINIMALIST_TEMPLATE), (u ''dark'', DARK_TEMPLATE)]"

definition get_template :: "pystr \<Rightarrow> bool \<Rightarrow> pystr" where
  "get_template template_name dark_mode =
     (if dark_mode \<and> lower template_name \<noteq> u ''dark'' then DARK_TEMPLATE
      else (case map_of templates (lower template_name) of
              Some t \<Rightarrow> t
            | None \<Rightarrow> MODERN_TEMPLATE))"

section \<open>Substitution and iteration of whole-word matches\<close>

text \<open>
  \<open>re.sub\<close> and \<open>re.finditer\<close> scan the text from the left: at a position where the
  pattern matches, the match is taken and the scan resumes behind it; elsewhere the scan
  moves on by one character. Both are called with lexicon entries only, which are never
  empty, so a match always has the length of the entry.
\<close>

function sub_from :: "pystr \<Rightarrow> pystr \<Rightarrow> nat option \<Rightarrow> pystr \<Rightarrow> pystr" where
  "sub_from w repl prev [] = []"
| "sub_from w repl prev (c # cs) =
     (if match_at w prev (c # cs)
      then repl @ sub_from w repl (last_matched w prev (c # cs)) (drop (length w - 1) cs)
      else c # sub_from w repl (Some c) cs)"
  by pat_completeness auto
termination
  by (relation "measure (\<lambda>(w, repl, prev, s). length s)") auto

definition sub :: "pystr \<Rightarrow> pystr \<Rightarrow> pystr \<Rightarrow> pystr" where
  \<comment> \<open>\<open>re.sub(r'\b' + w + r'\b', repl, text, flags=re.IGNORECASE)\<close>\<close>
  "sub w repl text = sub_from w repl None text"

function finditer_from :: "pystr \<Rightarrow> nat option \<Rightarrow> pystr \<Rightarrow> pystr list" where
  "finditer_from w prev [] = []"
| "finditer_from w prev (c # cs) =
     (if match_at w prev (c # cs)
      then take (length w) (c # cs)
           # finditer_from w (last_matched w prev (c # cs)) (drop (length w - 1) cs)
      else finditer_from w (Some c) cs)"
  by pat_completeness auto
termination
  by (relation "measure (\<lambda>(w, prev, s). length s)") auto

definition finditer :: "pystr \<Rightarrow> pystr \<Rightarrow> pystr list" where
  \<comment> \<open>\<open>match.group(0)\<close> of every match of \<open>re.finditer(r'\b' + w + r'\b', text, re.IGNORECASE)\<close>\<close>
  "finditer w text = finditer_from w None text"

section \<open>Lexicon\<close>

text \<open>
  The tables of \<open>text_enhancer.py\<close>. A dictionary is an association list in the order
  of the source, which is the order in which Python iterates over it.
\<close>

definition COMMON_SPELLING_MISTAKES :: "(pystr \<times> pystr) list" where
  "COMMON_SPELLING_MISTAKES = map (\<lambda>(mistake, correction). (u mistake, u correction))
    [(''accomodate'', ''accommodate''), (''acheive'', ''achieve''),
     (''accross'', ''across''), (''agressive'', ''aggressive''), (''alot'', ''a lot''),
     (''arguement'', ''argument''), (''assesment'', ''assessment''),
     (''basicly'', ''basically''), (''begining'', ''beginning''),
     (''beleive'', ''believe''), (''calender'', ''calendar''),
     (''catagory'', ''category''), (''commited'', ''committed''),
     (''completly'', ''completely''), (''concious'', ''conscious''),
     (''definately'', ''definitely''), (''dissapoint'', ''disappoint''),
     (''embarass'', ''embarrass''), (''enviroment'', ''environment''),
     (''excelent'', ''excellent''), (''explaination'', ''explanation''),
     (''familar'', ''familiar''), (''finaly'', ''finally''), (''foriegn'', ''foreign''),
     (''gaurd'', ''guard''), (''goverment'', ''government''), (''grammer'', ''grammar''),
     (''happend'', ''happened''), (''harrassment'', ''harassment''),
     (''immediatly'', ''immediately''), (''independant'', ''independent''),
     (''liason'', ''liaison''), (''maintainance'', ''maintenance''),
     (''millenium'', ''millennium''), (''neccessary'', ''necessary''),
     (''noticable'', ''noticeable''), (''occassion'', ''occasion''),
     (''occured'', ''occurred''), (''persistant'', ''persistent''),
     (''personel'', ''personnel''), (''plannning'', ''planning''),
     (''posession'', ''possession''), (''prefered'', ''preferred''),
     (''recieve'', ''receive''), (''reccomend'', ''recommend''),
     (''refered'', ''referred''), (''referance'', ''reference''),
     (''relevent'', ''relevant''), (''seperate'', ''separate''),
     (''succesful'', ''successful''), (''supercede'', ''supersede''),
     (''tommorrow'', ''tomorrow''), (''untill'', ''until'')]"

definition WEAK_WORDS :: "pystr list" where
  "WEAK_WORDS = map u
    [''very'', ''really'', ''just'', ''quite'', ''basically'', ''actually'', ''simply'',
     ''nice'', ''good'', ''bad'', ''great'', ''like'', ''thing'', ''stuff'', ''etc'',
     ''a lot'', ''got'', ''kind of'', ''sort of'', ''type of'', ''feel'', ''think'',
     ''believe'', ''hope'', ''pretty'', ''guess'', ''maybe'', ''perhaps'', ''seems'',
     ''appeared to'', ''tried to'']"

definition RESUME_CLICHES :: "pystr list" where
  "RESUME_CLICHES = map u
    [''team player'', ''detail-oriented'', ''self-starter'', ''hard worker'',
     ''results-driven'', ''go-getter'', ''think outside the box'', ''synergy'',
     ''proactive'', ''go-to person'', ''dynamic'', ''solution-driven'', ''multitasker'',
     ''excellent communication skills'', ''track record of success'', ''bottom line'',
     ''value-added'', ''win-win'', ''cutting edge'', ''best of breed'',
     ''results-oriented'', ''fast-paced environment'', ''think outside the box'',
     ''synergize'', ''hit the ground running'']"

definition ACTION_VERBS :: "(pystr \<times> pystr list) list" where
  "ACTION_VERBS = map (\<lambda>(category, verbs). (u category, map u verbs))
    [(''management'',
      [''Administered'', ''Analyzed'', ''Assigned'', ''Attained'', ''Chaired'',
       ''Consolidated'', ''Contracted'', ''Coordinated'', ''Delegated'', ''Developed'',
       ''Directed'', ''Evaluated'', ''Executed'', ''Improved'', ''Increased'',
       ''Organized'', ''Oversaw'', ''Planned'', ''Prioritized'', ''Produced'',
       ''Recommended'', ''Reviewed'', ''Scheduled'', ''Strengthened'', ''Supervised'']),
     (''communication'',
      [''Addressed'', ''Arbitrated'', ''Arranged'', ''Authored'', ''Collaborated'',
       ''Convinced'', ''Corresponded'', ''Developed'', ''Directed'', ''Drafted'',
       ''Edited'', ''Enlisted'', ''Formulated'', ''Influenced'', ''Interpreted'',
       ''Lectured'', ''Mediated'', ''Moderated'', ''Negotiated'', ''Persuaded'',
       ''Promoted'', ''Publicized'', ''Reconciled'', ''Recruited'', ''Translated'']),
     (''research'',
      [''Analyzed'', ''Clarified'', ''Collected'', ''Compared'', ''Conducted'',
       ''Critiqued'', ''Detected'', ''Determined'', ''Diagnosed'', ''Evaluated'',
       ''Examined'', ''Extracted'', ''Identified'', ''Inspected'', ''Interpreted'',
       ''Interviewed'', ''Investigated'', ''Organized'', ''Reviewed'', ''Summarized'',
       ''Surveyed'', ''Systematized'', ''Tested'', ''Validated'', ''Verified'']),
     (''technical'',
      [''Assembled'', ''Built'', ''Calculated'', ''Computed'', ''Designed'', ''Devised'',
       ''Engineered'', ''Fabricated'', ''Maintained'', ''Operated'', ''Optimized'',
       ''Overhauled'', ''Programmed'', ''Redesigned'', ''Reduced'', ''Remodeled'',
       ''Repaired'', ''Solved'', ''Standardized'', ''Upgraded'']),
     (''teaching'',
      [''Adapted'', ''Advised'', ''Clarified'', ''Coached'', ''Communicated'',
       ''Coordinated'', ''Developed'', ''Enabled'', ''Encouraged'', ''Evaluated'',
       ''Explained'', ''Facilitated'', ''Guided'', ''Informed'', ''Instructed'',
       ''Persuaded'', ''Set goals'', ''Stimulated'', ''Taught'', ''Trained'']),
     (''creative'',
      [''Acted'', ''Composed'', ''Conceived'', ''Conceptualized'', ''Created'',
       ''Customized'', ''Designed'', ''Developed'', ''Directed'', ''Established'',
       ''Fashioned'', ''Founded'', ''Illustrated'', ''Initiated'', ''Instituted'',
       ''Integrated'', ''Introduced'', ''Invented'', ''Originated'', ''Performed'',
       ''Planned'', ''Revitalized'', ''Shaped'', ''Visualized'']),
     (''financial'',
      [''Administered'', ''Allocated'', ''Analyzed'', ''Appraised'', ''Audited'',
       ''Balanced'', ''Budgeted'', ''Calculated'', ''Computed'', ''Developed'',
       ''Forecasted'', ''Managed'', ''Marketed'', ''Planned'', ''Projected'',
       ''Researched'', ''Reduced'', ''Tracked'', ''Quantified'', ''Verified''])]"

section \<open>Spelling corrector\<close>

text \<open>
  \<open>check_spelling(text)\<close>: one step of the loop over \<open>COMMON_SPELLING_MISTAKES.items()\<close>
  is \<open>spelling_step\<close>; the state of the loop is the pair of \<open>corrected_text\<close> and
  \<open>corrections\<close>.
\<close>

fun first_is_upper :: "pystr \<Rightarrow> bool" where
  \<comment> \<open>\<open>matched_text[0].isupper()\<close>; the match of a lexicon entry is never empty\<close>
  "first_is_upper [] = False"
| "first_is_upper (c # cs) = is_upper c"

definition recorded :: "pystr \<Rightarrow> pystr \<Rightarrow> pystr \<times> pystr" where
  \<comment> \<open>the pair appended to \<open>corrections\<close> for one match\<close>
  "recorded correction matched_text =
     (matched_text, if first_is_upper matched_text then capitalize correction else correction)"

definition spelling_step ::
  "pystr \<times> (pystr \<times> pystr) list \<Rightarrow> pystr \<times> pystr \<Rightarrow> pystr \<times> (pystr \<times> pystr) list" where
  "spelling_step st entry =
     (case st of (corrected_text, corrections) \<Rightarrow>
      case entry of (mistake, correction) \<Rightarrow>
        if search mistake corrected_text
        then (sub mistake correction corrected_text,
              corrections @ map (recorded correction) (finditer mistake corrected_text))
        else (corrected_text, corrections))"

definition check_spelling :: "pystr \<Rightarrow> pystr \<times> (pystr \<times> pystr) list" where
  "check_spelling text = foldl spelling_step (text, []) COMMON_SPELLING_MISTAKES"

section \<open>Text enhancer\<close>

text \<open>
  \<open>enhance_text(text)\<close> runs three passes: weak words are deleted, cliches are
  reported, and every bullet line that does not open with an action verb gets a
  suggestion. The suggested verb is \<open>random.choice(ACTION_VERBS[suggested_category])\<close>,
  which reads and advances the generator of the \<open>random\<close> module. The generator is
  the parameter \<open>rand\<close>: the \<open>k\<close>-th call of \<open>random.choice\<close> in one run picks the element
  at index \<open>rand k mod len(seq)\<close>.
\<close>

definition weak_step ::
  "pystr \<times> (pystr \<times> pystr) list \<Rightarrow> pystr \<Rightarrow> pystr \<times> (pystr \<times> pystr) list" where
  "weak_step st weak_word =
     (case st of (enhanced_text, enhancements) \<Rightarrow>
        if search weak_word enhanced_text
        then (sub weak_word [] enhanced_text, enhancements @ [(weak_word, u ''(removed)'')])
        else (enhanced_text, enhancements))"

definition cliche_step :: "pystr \<Rightarrow> (pystr \<times> pystr) list \<Rightarrow> pystr \<Rightarrow> (pystr \<times> pystr) list" where
  "cliche_step enhanced_text enhancements cliche =
     (if contains (lower enhanced_text) cliche
      then enhancements @ [(cliche, u ''Consider replacing with more specific achievements'')]
      else enhancements)"

definition is_bullet_line :: "pystr \<Rightarrow> bool" where
  "is_bullet_line line \<longleftrightarrow>
     startswith (strip line) [8226] \<or> startswith (strip line) [45] \<or> startswith (strip line) [42]"

definition rstrip_chars :: "pystr \<Rightarrow> pystr \<Rightarrow> pystr" where
  \<comment> \<open>\<open>s.rstrip(chars)\<close>\<close>
  "rstrip_chars s chars = rev (dropWhile (\<lambda>c. List.member chars c) (rev s))"

definition is_action_verb :: "pystr \<Rightarrow> bool" where
  \<comment> \<open>the \<open>any(...)\<close> over all verbs of all categories, for the first word of a bullet\<close>
  "is_action_verb word \<longleftrightarrow>
     list_ex (\<lambda>(category, verbs).
        list_ex (\<lambda>verb. lower verb = rstrip_chars (lower word) (u '',.:;'')) verbs) ACTION_VERBS"

fun max_item :: "pystr \<times> nat \<Rightarrow> (pystr \<times> nat) list \<Rightarrow> pystr \<times> nat" where
  \<comment> \<open>\<open>max(items, key=lambda x: x[1])\<close>: the first item with the greatest score\<close>
  "max_item best [] = best"
| "max_item best (x # xs) = max_item (if snd best < snd x then x else best) xs"

definition category_scores :: "pystr \<Rightarrow> (pystr \<times> nat) list" where
  "category_scores content =
     map (\<lambda>(category, verbs).
            (category, length (filter (\<lambda>verb. contains (lower content) (lower verb)) verbs)))
         ACTION_VERBS"

definition suggested_category :: "pystr \<Rightarrow> pystr" where
  "suggested_category content =
     (case category_scores content of
        [] \<Rightarrow> u ''management''
      | x # xs \<Rightarrow> fst (max_item x xs))"

definition verbs_of :: "pystr \<Rightarrow> pystr list" where
  \<comment> \<open>\<open>ACTION_VERBS[category]\<close>; the category is always a key of the table\<close>
  "verbs_of category = (case map_of ACTION_VERBS category of Some verbs \<Rightarrow> verbs | None \<Rightarrow> [])"

definition choice :: "(nat \<Rightarrow> nat) \<Rightarrow> nat \<Rightarrow> pystr list \<Rightarrow> pystr" where
  \<comment> \<open>\<open>random.choice(seq)\<close> at the \<open>k\<close>-th call; every list of the table is non-empty\<close>
  "choice rand k seq = (if seq = [] then [] else seq ! (rand k mod length seq))"

definition bullet_step ::
  "(nat \<Rightarrow> nat) \<Rightarrow> (pystr \<times> pystr) list \<times> nat \<Rightarrow> pystr \<Rightarrow> (pystr \<times> pystr) list \<times> nat" where
  "bullet_step rand st line =
     (case st of (enhancements, k) \<Rightarrow>
        if is_bullet_line line
        then (let content = strip (drop 1 (strip line)) in
              case split content of
                [] \<Rightarrow> (enhancements, k)
              | first_word # _ \<Rightarrow>
                  if is_action_verb first_word then (enhancements, k)
                  else (let suggested_verb = choice rand k (verbs_of (suggested_category content))
                        in (enhancements @
                              [(u ''Bullet point: '' @ content,
                                u ''Consider starting with an action verb like '' @ [39]
                                  @ suggested_verb @ [39])],
                            k + 1)))
        else (enhancements, k))"

definition enhance_text :: "(nat \<Rightarrow> nat) \<Rightarrow> pystr \<Rightarrow> pystr \<times> (pystr \<times> pystr) list" where
  "enhance_text rand text =
     (let (enhanced_text, weak) = foldl weak_step (text, []) WEAK_WORDS;
          cliches = foldl (cliche_step enhanced_text) weak RESUME_CLICHES;
          (enhancements, k) = foldl (bullet_step rand) (cliches, 0) (split_on 10 enhanced_text)
      in (enhanced_text, enhancements))"

section \<open>Document exporter: lines\<close>

text \<open>
  \<open>save_as_pdf\<close> and \<open>save_as_docx\<close> of \<open>resume_export.py\<close> each walk over
  \<open>resume_text.split('\n')\<close> with an \<open>if\<close>/\<open>elif\<close> chain of their own. An \<open>element\<close>
  names the branch a line takes and the text handed to the backend there. For an empty
  line the PDF writer adds vertical space and the DOCX writer writes nothing; both are
  \<open>Blank_line\<close>.
\<close>

datatype run = Plain_run pystr | Bold_run pystr

datatype element =
    Heading nat pystr
  | Bold_line pystr
  | Bullet pystr
  | Blank_line
  | Separator
  | Runs "run list"
  | Paragraph pystr

definition is_separator :: "pystr \<Rightarrow> bool" where
  \<comment> \<open>\<open>'=' in line and len(line.strip()) > 10 and all(c == '=' for c in line.strip())\<close>\<close>
  "is_separator line \<longleftrightarrow>
     List.member line 61 \<and> length (strip line) > 10 \<and> list_all (\<lambda>c. c = 61) (strip line)"

definition pdf_element :: "pystr \<Rightarrow> element" where
  "pdf_element line =
     (if startswith line (u ''# '') then Heading 1 (drop 2 line)
      else if startswith line (u ''## '') then Heading 2 (drop 3 line)
      else if startswith line (u ''### '') then Heading 3 (drop 4 line)
      else if startswith line (u ''**'') \<and> endswith line (u ''**'')
        then Bold_line (strip_chars line 42)
      else if startswith line (u ''-'') \<or> startswith line (u ''*'')
        then Bullet (strip (drop 1 line))
      else if strip line = [] then Blank_line
      else if is_separator line then Separator
      else Paragraph line)"

fun bold_end :: "pystr \<Rightarrow> nat option" where
  \<comment> \<open>behind an opening \<open>**\<close>: the length of the shortest \<open>.*?\<close> that a closing \<open>**\<close>
      follows; \<open>.\<close> does not match a line feed\<close>
  "bold_end [] = None"
| "bold_end (c # cs) =
     (if startswith (c # cs) (u ''**'') then Some 0
      else if c = 10 then None
      else map_option Suc (bold_end cs))"

function re_split_bold :: "pystr \<Rightarrow> pystr \<Rightarrow> pystr list" where
  \<comment> \<open>\<open>re.split(r'(\*\*.*?\*\*)', line)\<close>: the pieces between the matches and, as the
      pattern is one group, the matches themselves; \<open>cur\<close> is the piece being read\<close>
  "re_split_bold cur [] = [cur]"
| "re_split_bold cur (c # cs) =
     (if startswith (c # cs) (u ''**'')
      then (case bold_end (drop 1 cs) of
              Some k \<Rightarrow> cur # take (k + 4) (c # cs) # re_split_bold [] (drop (k + 3) cs)
            | None \<Rightarrow> re_split_bold (cur @ [c]) cs)
      else re_split_bold (cur @ [c]) cs)"
  by pat_completeness auto
termination
  by (relation "measure (\<lambda>(cur, s). length s)") auto

definition docx_run :: "pystr \<Rightarrow> run" where
  \<comment> \<open>the slice \<open>part[2:-2]\<close> is empty for a part shorter than four characters\<close>
  "docx_run part =
     (if startswith part (u ''**'') \<and> endswith part (u ''**'')
      then Bold_run (take (length part - 2 - 2) (drop 2 part))
      else Plain_run part)"

definition docx_element :: "pystr \<Rightarrow> element" where
  "docx_element line =
     (if startswith line (u ''# '') then Heading 1 (drop 2 line)
      else if startswith line (u ''## '') then Heading 2 (drop 3 line)
      else if startswith line (u ''### '') then Heading 3 (drop 4 line)
      else if startswith line (u ''-'') \<or> startswith line (u ''*'')
        then Bullet (strip (drop 1 line))
      else if strip line = [] then Blank_line
      else if is_separator line then Separator
      else if contains line (u ''**'') then Runs (map docx_run (re_split_bold [] line))
      else Paragraph line)"

definition pdf_elements :: "pystr \<Rightarrow> element list" where
  "pdf_elements resume_text = map pdf_element (split_on 10 resume_text)"

definition docx_elements :: "pystr \<Rightarrow> element list" where
  "docx_elements resume_text = map docx_element (split_on 10 resume_text)"

section \<open>Document exporter: HTML\<close>

text \<open>
  \<open>save_as_html(resume_text, filename, dark_mode)\<close>. What lies outside the function is
  a parameter: the flag \<open>MARKDOWN_AVAILABLE\<close>, the converter \<open>markdown.markdown\<close> (which
  returns the HTML or raises), the failure of \<open>open\<close>/\<open>write\<close> on a file name
  (\<open>io_error\<close> gives the exception's message) and \<open>os.path.abspath\<close>. The files written
  so far are the state. The result of a call is the value returned or the exception
  that leaves the function.
\<close>

datatype outcome = Returned pystr | Raised pystr

definition write_file ::
  "(pystr \<rightharpoonup> pystr) \<Rightarrow> (pystr \<rightharpoonup> pystr) \<Rightarrow> pystr \<Rightarrow> pystr \<Rightarrow> pystr + (pystr \<rightharpoonup> pystr)" where
  \<comment> \<open>\<open>with open(filename, "w", encoding="utf-8") as f: f.write(content)\<close>\<close>
  "write_file io_error files filename content =
     (case io_error filename of
        Some e \<Rightarrow> Inl e
      | None \<Rightarrow> Inr (files(filename \<mapsto> content)))"

definition dark_css :: pystr where
  "dark_css =
     u ''\<newline>        body {\<newline>            font-family: '' @ [39] @
     u ''Segoe UI'' @ [39] @ u '', Arial, sans-serif;\<newline>'' @
     u ''            line-height: 1.6;\<newline>'' @
     u ''            padding: 40px;\<newline>'' @
     u ''            max-width: 800px;\<newline>'' @
     u ''            margin: 0 auto;\<newline>'' @
     u ''            background-color: #121212;\<newline>'' @
     u ''            color: #e0e0e0;\<newline>        }\<newline>'' @
     u ''        h1, h2, h3 {\<newline>'' @
     u ''            color: #bb86fc;\<newline>        }\<newline>'' @
     u ''        a {\<newline>            color: #03dac6;\<newline>'' @
     u ''            text-decoration: none;\<newline>        }\<newline>'' @
     u ''        a:hover {\<newline>'' @
     u ''            text-decoration: underline;\<newline>'' @
     u ''        }\<newline>        hr {\<newline>'' @
     u ''            border: none;\<newline>'' @
     u ''            border-top: 1px solid #333;\<newline>'' @
     u ''            margin: 20px 0;\<newline>        }\<newline>'' @
     u ''        ul {\<newline>'' @
     u ''            list-style-type: square;\<newline>'' @
     u ''            color: #e0e0e0;\<newline>        }\<newline>        ''"

definition light_css :: pystr where
  "light_css =
     u ''\<newline>        body {\<newline>            font-family: '' @ [39] @
     u ''Segoe UI'' @ [39] @ u '', Arial, sans-serif;\<newline>'' @
     u ''            line-height: 1.6;\<newline>'' @
     u ''            padding: 40px;\<newline>'' @
     u ''            max-width: 800px;\<newline>'' @
     u ''            margin: 0 auto;\<newline>'' @
     u ''            color: #333;\<newline>        }\<newline>'' @
     u ''        h1, h2, h3 {\<newline>'' @
     u ''            color: #2c3e50;\<newline>        }\<newline>'' @
     u ''        h1 {\<newline>'' @
     u ''            border-bottom: 2px solid #3498db;\<newline>'' @
     u ''            padding-bottom: 10px;\<newline>        }\<newline>'' @
     u ''        h2 {\<newline>'' @
     u ''            border-bottom: 1px solid #ddd;\<newline>'' @
     u ''            padding-bottom: 5px;\<newline>        }\<newline>'' @
     u ''        a {\<newline>            color: #3498db;\<newline>'' @
     u ''            text-decoration: none;\<newline>        }\<newline>'' @
     u ''        a:hover {\<newline>'' @
     u ''            text-decoration: underline;\<newline>'' @
     u ''        }\<newline>        ul {\<newline>'' @
     u ''            list-style-type: square;\<newline>        }\<newline>'' @
     u ''        ''"

definition html_document :: "pystr \<Rightarrow> pystr \<Rightarrow> pystr" where
  \<comment> \<open>the f-string \<open>html_document\<close> of the converter path\<close>
  "html_document css html_content =
     u ''<!DOCTYPE html>\<newline><html>\<newline><head>\<newline>'' @
     u ''    <title>Resume</title>\<newline>    <meta charset='' @ [34] @ u ''UTF-8'' @
     [34] @ u ''>\<newline>    <style>\<newline>''
     @ css @
     u ''\<newline>    </style>\<newline></head>\<newline><body>\<newline>'' @
     u ''    ''
     @ html_content @
     u ''\<newline></body>\<newline></html>''"

definition fallback_document :: "pystr \<Rightarrow> pystr" where
  \<comment> \<open>the f-string written when the converter is missing\<close>
  "fallback_document plain_html =
     u ''<!DOCTYPE html>\<newline><html>\<newline><head>\<newline>'' @
     u ''    <title>Resume</title>\<newline>    <meta charset='' @ [34] @ u ''UTF-8'' @
     [34] @ u ''>\<newline>    <style>\<newline>'' @
     u ''        body { font-family: Arial, sans-serif; line-height: 1.6; padding: 20px; }\<newline>'' @
     u ''        pre { white-space: pre-wrap; }\<newline>'' @
     u ''    </style>\<newline></head>\<newline><body>\<newline>    ''
     @ plain_html @
     u ''\<newline></body>\<newline></html>''"

definition fallback_css :: pystr where
  \<comment> \<open>the style sheet that stands inside \<open>fallback_document\<close>\<close>
  "fallback_css =
     u ''        body { font-family: Arial, sans-serif; line-height: 1.6; padding: 20px; }\<newline>'' @
     u ''        pre { white-space: pre-wrap; }''"

definition save_as_html ::
  "bool \<Rightarrow> (pystr \<Rightarrow> pystr + pystr) \<Rightarrow> (pystr \<rightharpoonup> pystr) \<Rightarrow> (pystr \<Rightarrow> pystr) \<Rightarrow>
   (pystr \<rightharpoonup> pystr) \<Rightarrow> pystr \<Rightarrow> pystr \<Rightarrow> bool \<Rightarrow> (pystr \<rightharpoonup> pystr) \<times> outcome" where
  "save_as_html MARKDOWN_AVAILABLE markdown io_error abspath files resume_text filename dark_mode =
     (if \<not> MARKDOWN_AVAILABLE
      then (let plain_html = u ''<pre>'' @ resume_text @ u ''</pre>'' in
            case write_file io_error files filename (fallback_document plain_html) of
              Inl e \<Rightarrow> (files, Raised e)
            | Inr files' \<Rightarrow> (files', Returned (abspath filename)))
      else (case markdown resume_text of
              Inl e \<Rightarrow> (files, Returned (u ''Error saving HTML file: '' @ e))
            | Inr html_content \<Rightarrow>
                (let css = (if dark_mode then dark_css else light_css) in
                 case write_file io_error files filename (html_document css html_content) of
                   Inl e \<Rightarrow> (files, Returned (u ''Error saving HTML file: '' @ e))
                 | Inr files' \<Rightarrow> (files', Returned (abspath filename)))))"

section \<open>Keyword extractor\<close>

text \<open>
  \<open>extract_keywords_from_job_description(job_description)\<close>. The request to the
  generative service is outside the function: its result is the parameter \<open>reply\<close>.
  Only a reply with status 200 whose body parses gives the keywords of the service; an
  exception, another status or a body that does not parse leads to the fallback
  below the \<open>try\<close> block.
\<close>

datatype reply =
    Request_failed
  | Status_not_200
  | Malformed_body
  | Response pystr

definition common_words :: "pystr list" where
  \<comment> \<open>the set \<open>common_words\<close>; only membership is asked of it\<close>
  "common_words = map u
    [''a'', ''an'', ''the'', ''and'', ''or'', ''but'', ''is'', ''are'', ''was'', ''were'',
     ''be'', ''been'', ''being'', ''in'', ''on'', ''at'', ''by'', ''for'', ''with'',
     ''about'', ''against'', ''between'', ''into'', ''through'', ''during'', ''before'',
     ''after'', ''above'', ''below'', ''to'', ''from'', ''up'', ''down'', ''of'', ''off'',
     ''over'', ''under'', ''again'', ''further'', ''then'', ''once'', ''here'', ''there'',
     ''when'', ''where'', ''why'', ''how'', ''all'', ''any'', ''both'', ''each'', ''few'',
     ''more'', ''most'', ''other'', ''some'', ''such'', ''no'', ''nor'', ''not'', ''only'',
     ''own'', ''same'', ''so'', ''than'', ''too'', ''very'', ''s'', ''t'', ''can'',
     ''will'', ''just'', ''don'', ''should'', ''now'', ''you'', ''we'', ''our'',
     ''company'', ''position'', ''job'', ''role'', ''candidate'', ''applicant'', ''ideal'',
     ''looking'', ''must'', ''required'', ''preferred'', ''responsibilities'',
     ''qualifications'', ''requirements'', ''ability'', ''experience'', ''work'',
     ''working'', ''team'', ''strong'', ''excellent'', ''include'', ''including'']"

definition is_common :: "pystr \<Rightarrow> bool" where
  "is_common word \<longleftrightarrow> List.member common_words word"

definition tok_start :: "nat \<Rightarrow> bool" where
  \<comment> \<open>the class \<open>[a-zA-Z]\<close>\<close>
  "tok_start c \<longleftrightarrow> (65 \<le> c \<and> c \<le> 90) \<or> (97 \<le> c \<and> c \<le> 122)"

definition tok_char :: "nat \<Rightarrow> bool" where
  \<comment> \<open>the class \<open>[a-zA-Z+#.]\<close>\<close>
  "tok_char c \<longleftrightarrow> tok_start c \<or> c = 43 \<or> c = 35 \<or> c = 46"

fun tok_more :: "nat \<Rightarrow> pystr \<Rightarrow> nat option" where
  \<comment> \<open>behind the character \<open>p\<close> of a token: how many more characters the greedy
      \<open>[a-zA-Z+#.]*\<close> keeps so that \<open>\b\<close> holds behind them, the longest first\<close>
  "tok_more p [] = (if boundary (Some p) None then Some 0 else None)"
| "tok_more p (c # cs) =
     (if tok_char c
      then (case tok_more c cs of
              Some n \<Rightarrow> Some (Suc n)
            | None \<Rightarrow> if boundary (Some p) (Some c) then Some 0 else None)
      else if boundary (Some p) (Some c) then Some 0 else None)"

function findall_tokens :: "nat option \<Rightarrow> pystr \<Rightarrow> pystr list" where
  \<comment> \<open>\<open>re.findall(r'\b[a-zA-Z][a-zA-Z+#.]*\b', text)\<close>, \<open>prev\<close> standing before the text\<close>
  "findall_tokens prev [] = []"
| "findall_tokens prev (c # cs) =
     (if boundary prev (Some c) \<and> tok_start c
      then (case tok_more c cs of
              Some n \<Rightarrow> (c # take n cs) # findall_tokens (Some (last (c # take n cs))) (drop n cs)
            | None \<Rightarrow> findall_tokens (Some c) cs)
      else findall_tokens (Some c) cs)"
  by pat_completeness auto
termination
  by (relation "measure (\<lambda>(prev, s). length s)") auto

definition potential_keywords :: "pystr \<Rightarrow> pystr list" where
  "potential_keywords job_description =
     filter (\<lambda>word. \<not> is_common word \<and> length word > 2)
       (findall_tokens None (lower job_description))"

fun pairs_of :: "pystr list \<Rightarrow> pystr list" where
  \<comment> \<open>the loop over \<open>range(len(words) - 1)\<close> that fills \<open>word_pairs\<close>\<close>
  "pairs_of (a # b # rest) =
     (if \<not> is_common a \<and> \<not> is_common b then [a @ [32] @ b] else []) @ pairs_of (b # rest)"
| "pairs_of [a] = []"
| "pairs_of [] = []"

definition word_pairs :: "pystr \<Rightarrow> pystr list" where
  "word_pairs job_description = pairs_of (split (lower job_description))"

fun add_count :: "nat \<Rightarrow> (pystr \<times> nat) list \<Rightarrow> pystr \<Rightarrow> (pystr \<times> nat) list" where
  \<comment> \<open>\<open>word_counts[key] += n\<close> for a key of the dictionary, \<open>word_counts[key] = n\<close> for a
      new one, which goes to the end of the dictionary's order\<close>
  "add_count n [] key = [(key, n)]"
| "add_count n ((k, v) # rest) key =
     (if k = key then (k, v + n) # rest else (k, v) # add_count n rest key)"

definition word_counts :: "pystr \<Rightarrow> (pystr \<times> nat) list" where
  "word_counts job_description =
     foldl (add_count 3)
       (foldl (add_count 1) [] (potential_keywords job_description))
       (word_pairs job_description)"

definition sorted_by_count :: "(pystr \<times> nat) list \<Rightarrow> (pystr \<times> nat) list" where
  \<comment> \<open>\<open>sorted(items, key=lambda x: x[1], reverse=True)\<close>: Python's sort is stable, also
      with \<open>reverse=True\<close>, so it is the stable sort by falling count\<close>
  "sorted_by_count items = sort_key (\<lambda>item. - int (snd item)) items"

definition fallback_keywords :: "pystr \<Rightarrow> pystr list" where
  "fallback_keywords job_description =
     map fst (take 20 (sorted_by_count (word_counts job_description)))"

definition extract_keywords_from_job_description :: "reply \<Rightarrow> pystr \<Rightarrow> pystr list" where
  "extract_keywords_from_job_description reply job_description =
     (case reply of
        Response keywords_text \<Rightarrow>
          take 20 (filter (\<lambda>k. k \<noteq> []) (map strip (split_on 44 keywords_text)))
      | _ \<Rightarrow> fallback_keywords job_description)"

fun position :: "'a \<Rightarrow> 'a list \<Rightarrow> nat" where
  \<comment> \<open>the place of the first occurrence of an element, for stating the order of ties\<close>
  "position x [] = 0"
| "position x (y # ys) = (if x = y then 0 else Suc (position x ys))"

fun first_seen :: "'a list \<Rightarrow> 'a list" where
  \<comment> \<open>the elements of a list in the order of their first occurrences\<close>
  "first_seen [] = []"
| "first_seen (x # xs) = x # removeAll x (first_seen xs)"

definition before :: "('a \<Rightarrow> int) \<Rightarrow> 'a list \<Rightarrow> 'a \<Rightarrow> 'a \<Rightarrow> bool" where
  \<comment> \<open>the order a stable sort by the key \<open>f\<close> gives to two elements of \<open>xs\<close>\<close>
  "before f xs a b \<longleftrightarrow> f a < f b \<or> (f a = f b \<and> position a xs < position b xs)"

definition outranks :: "(pystr \<times> nat) list \<Rightarrow> pystr \<times> nat \<Rightarrow> pystr \<times> nat \<Rightarrow> bool" where
  \<comment> \<open>a greater count, or the same count and an earlier place in the dictionary\<close>
  "outranks items a b \<longleftrightarrow>
     snd b < snd a \<or> (snd a = snd b \<and> position a items < position b items)"

definition count_of :: "(pystr \<times> nat) list \<Rightarrow> pystr \<Rightarrow> nat" where
  \<comment> \<open>\<open>word_counts.get(key, 0)\<close>\<close>
  "count_of m k = (case map_of m k of None \<Rightarrow> 0 | Some v \<Rightarrow> v)"

section \<open>Lexicon entries as patterns\<close>

text \<open>
  What the proofs about \<open>re.sub\<close> need to know of a lexicon entry: it is \<open>plain\<close>, that
  is, made of lower-case ASCII letters and single spaces, with a letter at both ends. The
  other predicates say where one entry could match inside the match of another, or
  inside a replacement: \<open>fits k b\<close> holds when \<open>k\<close> could match a text that starts with
  a match of \<open>b\<close> followed by a character that is not a word character.
\<close>

definition is_letter :: "nat \<Rightarrow> bool" where
  "is_letter c \<longleftrightarrow> 97 \<le> c \<and> c \<le> 122"

definition low :: "nat \<Rightarrow> bool" where
  "low c \<longleftrightarrow> is_letter c \<or> c = 32"

fun plain_tail :: "nat \<Rightarrow> pystr \<Rightarrow> bool" where
  \<comment> \<open>the rest of an entry behind its character \<open>q\<close>\<close>
  "plain_tail q [] = is_letter q"
| "plain_tail q (p # ps) = ((is_letter p \<or> (p = 32 \<and> is_letter q)) \<and> plain_tail p ps)"

fun plain :: "pystr \<Rightarrow> bool" where
  "plain [] = False"
| "plain (p # ps) = (is_letter p \<and> plain_tail p ps)"







definition nw :: "pystr \<Rightarrow> bool" where
  \<comment> \<open>the text is empty or starts with a character that is not a word character\<close>
  "nw s \<longleftrightarrow> \<not> word_at (head_opt s)"






section \<open>Properties of the ATS scorer\<close>

lemma length_part_cases: "fst (length_part text) \<in> {60, 70, 100}"
  by (simp add: length_part_def Let_def)

lemma format_score_cases: "fst (format_score text) \<in> {60, 70, 80, 90, 100}"
  by (simp add: format_score_def Let_def split: prod.splits)

lemma keyword_part_None:
  "fst (keyword_part pct text None) = None" "fst (keyword_part pct text (Some [])) = None"
  by (simp_all add: keyword_part_def)

lemma keyword_part_Some:
  "ks \<noteq> [] \<Longrightarrow> \<exists>k\<ge>0. fst (keyword_part pct text (Some ks)) = Some k"
  by (simp add: keyword_part_def Let_def)

lemma trunc_div_nonneg: "0 \<le> a \<Longrightarrow> trunc_div a b = a div b"
  by (simp add: trunc_div_def)

lemma format_score_bounds: "60 \<le> fst (format_score text) \<and> fst (format_score text) \<le> 100"
  using format_score_cases [of "text"] by auto

lemma length_part_bounds: "60 \<le> fst (length_part text) \<and> fst (length_part text) \<le> 100"
  using length_part_cases [of "text"] by auto

lemma format_eq: "format (calculate_ats_score pct text kws) = max 0 (fst (format_score text))"
  by (simp add: calculate_ats_score_def Let_def case_prod_beta)

lemma length_score_eq: "length_score (calculate_ats_score pct text kws) = fst (length_part text)"
  by (simp add: calculate_ats_score_def Let_def case_prod_beta)

lemma keyword_match_eq: "keyword_match (calculate_ats_score pct text kws) = fst (keyword_part pct text kws)"
  by (simp add: calculate_ats_score_def Let_def case_prod_beta)

lemma overall_eq:
  "overall (calculate_ats_score pct text kws) =
     (case fst (keyword_part pct text kws) of
        Some k \<Rightarrow> trunc_div (max 0 (fst (format_score text)) + fst (length_part text) + k) 3
      | None \<Rightarrow> trunc_div (max 0 (fst (format_score text)) + fst (length_part text)) 2)"
  by (simp add: calculate_ats_score_def Let_def case_prod_beta)

lemmas char_class_defs =
  is_space_def is_upper_def is_lower_def is_digit_def is_word_def lower_cp_def upper_cp_def
  ci_eq_def

lemmas search_defs = search_def match_at_def boundary_def last_matched_def

text \<open>
  Claim C1. The \<open>overall\<close> field of the report is the integer mean of the numeric
  sub-scores: with a non-empty keyword list the keyword match is a number and
  \<open>overall = (format + length + keyword_match) div 3\<close>; with no keyword list (\<open>None\<close> or
  the empty list) the keyword match is \<open>"N/A"\<close> and \<open>overall = (format + length) div 2\<close>.
\<close>

theorem ats_overall_is_integer_mean:
  "let r = calculate_ats_score pct text kws in
     (\<forall>ks. kws = Some ks \<and> ks \<noteq> [] \<longrightarrow>
        (\<exists>k. keyword_match r = Some k \<and> overall r = (format r + length_score r + k) div 3))
   \<and> (kws = None \<or> kws = Some [] \<longrightarrow>
        keyword_match r = None \<and> overall r = (format r + length_score r) div 2)"
proof -
  define r where "r = calculate_ats_score pct text kws"
  have f: "0 \<le> fst (format_score text)" and l: "0 \<le> fst (length_part text)"
    using format_score_bounds [of "text"] length_part_bounds [of "text"] by auto
  have a: "\<exists>k. keyword_match r = Some k \<and> overall r = (format r + length_score r + k) div 3"
    if "kws = Some ks" "ks \<noteq> []" for ks
  proof -
    from keyword_part_Some [OF that(2), of pct "text"] that(1)
    obtain k where k: "0 \<le> k" "fst (keyword_part pct text kws) = Some k" by auto
    show ?thesis
      unfolding r_def using f l k
      by (simp add: overall_eq format_eq length_score_eq keyword_match_eq trunc_div_nonneg)
  qed
  have b: "keyword_match r = None \<and> overall r = (format r + length_score r) div 2"
    if "kws = None \<or> kws = Some []"
  proof -
    from that keyword_part_None [of pct "text"]
    have "fst (keyword_part pct text kws) = None" by auto
    then show ?thesis
      unfolding r_def using f l
      by (simp add: overall_eq format_eq length_score_eq keyword_match_eq trunc_div_nonneg)
  qed
  from a b show ?thesis unfolding Let_def r_def by blast
qed


theorem ats_overall_is_integer_mean_witness:
  "keyword_match (calculate_ats_score (\<lambda>m n. m * 100 div n) (u ''skills: python - sql me@x.org'')
       (Some [u ''python'', u ''sql'', u ''docker''])) = Some 66
   \<and> overall (calculate_ats_score (\<lambda>m n. m * 100 div n) (u ''skills: python - sql me@x.org'')
       (Some [u ''python'', u ''sql'', u ''docker''])) = (70 + 60 + 66) div 3
   \<and> keyword_match (calculate_ats_score (\<lambda>m n. m * 100 div n) (u ''skills: python - sql me@x.org'') None) = None
   \<and> overall (calculate_ats_score (\<lambda>m n. m * 100 div n) (u ''skills: python - sql me@x.org'') None)
       = (70 + 60) div 2"
proof -
  let ?T = "u ''skills: python - sql me@x.org''"
  let ?K = "[u ''python'', u ''sql'', u ''docker'']"
  let ?pct = "\<lambda>m n :: nat. m * 100 div n"
  have f: "format (calculate_ats_score ?pct ?T kws) = 70" for kws
    by (simp add: format_eq format_score_def sections_def is_bullet_mark_def u_def
        search_defs char_class_defs)
  have l: "length_score (calculate_ats_score ?pct ?T kws) = 60" for kws
    by (simp add: length_score_eq length_part_def u_def split_def char_class_defs)
  have k: "keyword_match (calculate_ats_score ?pct ?T (Some ?K)) = Some 66"
    by (simp add: keyword_match_eq keyword_part_def u_def search_defs char_class_defs)
  from ats_overall_is_integer_mean [of ?pct ?T "Some ?K"]
       ats_overall_is_integer_mean [of ?pct ?T None] f l k
  show ?thesis by (simp add: Let_def)
qed

text \<open>
  Claim C10. The format sub-score lies between 60 and 100: the three deductions (10,
  20 and 10) total at most 40, so the clamp \<open>max(0, format_score)\<close> returns
  \<open>format_score\<close> itself.
\<close>

theorem ats_format_between_60_and_100:
  "60 \<le> format (calculate_ats_score pct text kws)
   \<and> format (calculate_ats_score pct text kws) \<le> 100
   \<and> 100 - fst (format_score text) \<le> 40
   \<and> format (calculate_ats_score pct text kws) = fst (format_score text)"
  using format_score_bounds [of "text"] by (simp add: format_eq)


theorem ats_format_between_60_and_100_witness:
  "format (calculate_ats_score (\<lambda>m n. m * 100 div n) (u ''no headers here'') None) = 60
   \<and> fst (format_score (u ''no headers here'')) = 60"
proof -
  have "fst (format_score (u ''no headers here'')) = 60"
    by (simp add: format_score_def sections_def is_bullet_mark_def u_def
        search_defs char_class_defs)
  with ats_format_between_60_and_100 [of "\<lambda>m n. m * 100 div n" "u ''no headers here''" None]
  show ?thesis by simp
qed

section \<open>Properties of the template selection\<close>

lemmas str_defs = u_def lower_def strip_def endswith_def split_def strip_chars_def

lemma lower_dark: "lower (u ''dark'') = u ''dark''"
  by (simp add: u_def lower_def char_class_defs)

lemma templates_distinct:
  "distinct [MODERN_TEMPLATE, CLASSIC_TEMPLATE, MINIMALIST_TEMPLATE, DARK_TEMPLATE]"
  by (simp add: MODERN_TEMPLATE_def CLASSIC_TEMPLATE_def MINIMALIST_TEMPLATE_def
      DARK_TEMPLATE_def u_def)

text \<open>
  Claim C7. With the dark-mode flag set and a name other than \<open>"dark"\<close> the dark
  template is returned whatever the name; otherwise the lower-cased name is looked up
  among \<open>modern\<close>, \<open>classic\<close>, \<open>minimalist\<close> and \<open>dark\<close>, and a name that is none of
  them yields the modern template.
\<close>

theorem get_template_selection:
  "(dark_mode \<and> name \<noteq> u ''dark'' \<longrightarrow> get_template name dark_mode = DARK_TEMPLATE)
   \<and> (\<not> (dark_mode \<and> name \<noteq> u ''dark'') \<longrightarrow>
        get_template name dark_mode =
          (if lower name = u ''modern'' then MODERN_TEMPLATE
           else if lower name = u ''classic'' then CLASSIC_TEMPLATE
           else if lower name = u ''minimalist'' then MINIMALIST_TEMPLATE
           else if lower name = u ''dark'' then DARK_TEMPLATE
           else MODERN_TEMPLATE))"
  using lower_dark by (auto simp add: get_template_def templates_def u_def)

theorem get_template_selection_witness:
  "get_template (u ''Classic'') True = DARK_TEMPLATE
   \<and> get_template (u ''Classic'') False = CLASSIC_TEMPLATE
   \<and> get_template (u ''fancy'') False = MODERN_TEMPLATE
   \<and> get_template (u ''dark'') True = DARK_TEMPLATE
   \<and> CLASSIC_TEMPLATE \<noteq> MODERN_TEMPLATE \<and> DARK_TEMPLATE \<noteq> CLASSIC_TEMPLATE"
proof -
  have l: "lower (u ''Classic'') = u ''classic''" "lower (u ''fancy'') = u ''fancy''"
    by (simp_all add: u_def lower_def char_class_defs)
  have n: "u ''Classic'' \<noteq> u ''dark''" "u ''classic'' \<noteq> u ''modern''"
    "u ''fancy'' \<noteq> u ''modern''" "u ''fancy'' \<noteq> u ''classic''"
    "u ''fancy'' \<noteq> u ''minimalist''" "u ''fancy'' \<noteq> u ''dark''" "u ''dark'' \<noteq> u ''modern''"
    "u ''dark'' \<noteq> u ''classic''" "u ''dark'' \<noteq> u ''minimalist''"
    by (simp_all add: u_def)
  from get_template_selection [of True "u ''Classic''"]
       get_template_selection [of False "u ''Classic''"]
       get_template_selection [of False "u ''fancy''"]
       get_template_selection [of True "u ''dark''"]
       templates_distinct l n lower_dark
  show ?thesis by auto
qed

section \<open>The spelling corrector on a capitalised mistake\<close>

lemmas spelling_defs =
  check_spelling_def COMMON_SPELLING_MISTAKES_def spelling_step_def sub_def finditer_def
  recorded_def

lemma recorded_capital:
  "(mistake, correction) \<in> set COMMON_SPELLING_MISTAKES \<Longrightarrow>
   first_is_upper (snd (recorded correction matched_text)) = first_is_upper matched_text"
  by (auto simp add: COMMON_SPELLING_MISTAKES_def recorded_def u_def char_class_defs)

lemma recieve_run:
  "check_spelling (u ''Recieve this'') = (u ''receive this'', [(u ''Recieve'', u ''Receive'')])"
  by (simp add: spelling_defs str_defs search_defs char_class_defs)

text \<open>
  Claim C3. On \<open>"Recieve this"\<close> the corrections list holds the pair
  \<open>("Recieve", "Receive")\<close>, and the recorded replacement is capitalised exactly when
  the match is (\<open>recorded_capital\<close>). The returned text, however, is \<open>"receive this"\<close>:
  \<open>re.sub\<close> is called with the lexicon's lower-case \<open>correction\<close>, not with the
  case-preserving \<open>replacement\<close> computed for the list, so the text does not contain
  \<open>"Receive"\<close>.
\<close>

theorem check_spelling_recieve:
  "check_spelling (u ''Recieve this'') = (u ''receive this'', [(u ''Recieve'', u ''Receive'')])
   \<and> \<not> contains (fst (check_spelling (u ''Recieve this''))) (u ''Receive'')"
proof -
  have "\<not> contains (u ''receive this'') (u ''Receive'')"
    by (simp add: u_def)
  then show ?thesis by (simp add: recieve_run)
qed

section \<open>Properties of the exporter\<close>

lemma startswith_contains: "startswith s p \<Longrightarrow> contains s p"
  by (cases s; cases p) auto

lemma fallback_document_shell: "fallback_document body = html_document fallback_css body"
  by (simp add: fallback_document_def html_document_def fallback_css_def u_def)

lemma three_style_sheets: "distinct [light_css, dark_css, fallback_css]"
  by (simp add: light_css_def dark_css_def fallback_css_def u_def)

lemmas element_defs = pdf_element_def docx_element_def is_separator_def docx_run_def

text \<open>
  Claim C5, as amended. The two writers do not share one classification: each has a
  chain of its own. The chains agree (headings of level 1 to 3, bullet, blank line,
  separator, plain paragraph, in this order) on every line except two kinds: a line
  that both starts and ends with \<open>**\<close>, which only the PDF writer knows as a bold
  standalone line, and a line containing \<open>**\<close> that no earlier rule takes, which the PDF
  writer prints as a plain paragraph and the DOCX writer as a paragraph of plain and
  bold runs.
\<close>

theorem pdf_docx_agree_outside_bold:
  "(\<not> (startswith line (u ''**'') \<and> endswith line (u ''**''))
      \<and> \<not> (contains line (u ''**'') \<and> pdf_element line = Paragraph line)
      \<longrightarrow> docx_element line = pdf_element line)
   \<and> (startswith line (u ''**'') \<and> endswith line (u ''**'')
      \<longrightarrow> pdf_element line = Bold_line (strip_chars line 42))
   \<and> (contains line (u ''**'') \<and> pdf_element line = Paragraph line
      \<longrightarrow> docx_element line = Runs (map docx_run (re_split_bold [] line)))"
proof (intro conjI impI)
  assume a: "\<not> (startswith line (u ''**'') \<and> endswith line (u ''**''))
          \<and> \<not> (contains line (u ''**'') \<and> pdf_element line = Paragraph line)"
  show "docx_element line = pdf_element line"
  proof (cases "contains line (u ''**'')")
    case False
    then show ?thesis
      by (auto simp add: pdf_element_def docx_element_def dest: startswith_contains)
  next
    case True
    with a have "pdf_element line \<noteq> Paragraph line" by simp
    with a show ?thesis
      by (simp add: pdf_element_def docx_element_def split: if_splits)
  qed
next
  assume a: "startswith line (u ''**'') \<and> endswith line (u ''**'')"
  then have "\<not> startswith line (u ''# '')" "\<not> startswith line (u ''## '')"
    "\<not> startswith line (u ''### '')"
    by (cases line; simp add: u_def)+
  with a show "pdf_element line = Bold_line (strip_chars line 42)"
    by (simp add: pdf_element_def)
next
  assume a: "contains line (u ''**'') \<and> pdf_element line = Paragraph line"
  then show "docx_element line = Runs (map docx_run (re_split_bold [] line))"
    by (simp add: pdf_element_def docx_element_def split: if_splits)
qed

theorem pdf_docx_agree_outside_bold_witness:
  "docx_element (u ''- Python'') = pdf_element (u ''- Python'')
   \<and> pdf_element (u ''- Python'') = Bullet (u ''Python'')
   \<and> pdf_element (u ''**Skills**'') = Bold_line (u ''Skills'')
   \<and> docx_element (u ''Email: **a@b**'')
       = Runs [Plain_run (u ''Email: ''), Bold_run (u ''a@b''), Plain_run []]"
proof -
  have 1: "pdf_element (u ''- Python'') = Bullet (u ''Python'')"
    by (simp add: element_defs str_defs char_class_defs)
  have 2: "startswith (u ''**Skills**'') (u ''**'') \<and> endswith (u ''**Skills**'') (u ''**'')"
    by (simp add: str_defs)
  have 3: "strip_chars (u ''**Skills**'') 42 = u ''Skills''"
    by (simp add: str_defs)
  have 4: "contains (u ''Email: **a@b**'') (u ''**'')
           \<and> pdf_element (u ''Email: **a@b**'') = Paragraph (u ''Email: **a@b**'')"
    by (simp add: element_defs str_defs char_class_defs)
  have 5: "map docx_run (re_split_bold [] (u ''Email: **a@b**''))
           = [Plain_run (u ''Email: ''), Bold_run (u ''a@b''), Plain_run []]"
    by (simp add: element_defs str_defs)
  have 6: "\<not> (startswith (u ''- Python'') (u ''**'') \<and> endswith (u ''- Python'') (u ''**''))
           \<and> \<not> (contains (u ''- Python'') (u ''**'')
                \<and> pdf_element (u ''- Python'') = Paragraph (u ''- Python''))"
    by (simp add: str_defs)
  from pdf_docx_agree_outside_bold [of "u ''- Python''"]
       pdf_docx_agree_outside_bold [of "u ''**Skills**''"]
       pdf_docx_agree_outside_bold [of "u ''Email: **a@b**''"] 1 2 3 4 5 6
  show ?thesis by simp
qed

theorem pdf_docx_differ_counterexample:
  "pdf_element (u ''**About Me**'') = Bold_line (u ''About Me'')
   \<and> docx_element (u ''**About Me**'') = Bullet (u ''*About Me**'')
   \<and> pdf_element (u ''**About Me**'') \<noteq> docx_element (u ''**About Me**'')
   \<and> pdf_element (u ''Led **3** teams'') = Paragraph (u ''Led **3** teams'')
   \<and> docx_element (u ''Led **3** teams'')
       = Runs [Plain_run (u ''Led ''), Bold_run (u ''3''), Plain_run (u '' teams'')]"
  by (simp add: element_defs str_defs char_class_defs)

text \<open>
  Claim C8, as amended. Without the converter, and when the file can be written, the
  export returns the path and writes the document skeleton of the converter path
  around \<open><pre>text</pre>\<close>, the text taken as it is, with a style sheet of its own
  and whatever the dark-mode flag. With the converter the style sheet is the dark or
  the light one by the flag. The three style sheets differ.
\<close>

theorem save_as_html_documents:
  "(io_error filename = None \<longrightarrow>
      save_as_html False markdown io_error abspath files resume_text filename dark_mode
        = (files(filename \<mapsto> html_document fallback_css (u ''<pre>'' @ resume_text @ u ''</pre>'')),
           Returned (abspath filename)))
   \<and> (io_error filename = None \<and> markdown resume_text = Inr html_content \<longrightarrow>
      save_as_html True markdown io_error abspath files resume_text filename dark_mode
        = (files(filename \<mapsto> html_document (if dark_mode then dark_css else light_css) html_content),
           Returned (abspath filename)))
   \<and> distinct [light_css, dark_css, fallback_css]"
  using three_style_sheets
  by (simp add: save_as_html_def write_file_def fallback_document_shell)

theorem save_as_html_documents_witness:
  "save_as_html False Inr (map_of []) id (map_of []) (u ''# Ann'') (u ''resume.html'') True
     = ((map_of [])(u ''resume.html'' \<mapsto> html_document fallback_css (u ''<pre># Ann</pre>'')),
        Returned (u ''resume.html''))
   \<and> save_as_html True Inr (map_of []) id (map_of []) (u ''# Ann'') (u ''resume.html'') True
     = ((map_of [])(u ''resume.html'' \<mapsto> html_document dark_css (u ''# Ann'')),
        Returned (u ''resume.html''))"
proof -
  have "u ''<pre>'' @ u ''# Ann'' @ u ''</pre>'' = u ''<pre># Ann</pre>''"
    by (simp add: u_def)
  with save_as_html_documents [of "map_of []" "u ''resume.html''" Inr id "map_of []"
         "u ''# Ann''" True "u ''# Ann''"]
  show ?thesis by simp
qed

theorem save_as_html_fallback_counterexample:
  "snd (save_as_html False Inr (map_of [(u ''resume.html'', u ''Permission denied'')]) id
         (map_of []) (u ''x'') (u ''resume.html'') False)
     = Raised (u ''Permission denied'')
   \<and> fst (save_as_html False Inr (map_of []) id (map_of []) (u ''x'') (u ''resume.html'') False)
        (u ''resume.html'')
     = Some (html_document fallback_css (u ''<pre>x</pre>''))
   \<and> html_document fallback_css (u ''<pre>x</pre>'') \<noteq> html_document light_css (u ''<pre>x</pre>'')
   \<and> html_document fallback_css (u ''<pre>x</pre>'') \<noteq> html_document dark_css (u ''<pre>x</pre>'')"
proof -
  have "html_document fallback_css (u ''<pre>x</pre>'') \<noteq> html_document light_css (u ''<pre>x</pre>'')"
    "html_document fallback_css (u ''<pre>x</pre>'') \<noteq> html_document dark_css (u ''<pre>x</pre>'')"
    by (simp_all add: html_document_def fallback_css_def light_css_def dark_css_def u_def)
  moreover have "u ''<pre>'' @ u ''x'' @ u ''</pre>'' = u ''<pre>x</pre>''"
    by (simp add: u_def)
  ultimately show ?thesis
    by (simp add: save_as_html_def write_file_def fallback_document_shell)
qed

section \<open>The text enhancer and the random generator\<close>

lemma bullet_step_targets:
  "map fst e1 = map fst e2 \<Longrightarrow>
   map fst (fst (bullet_step r1 (e1, k1) line)) = map fst (fst (bullet_step r2 (e2, k2) line))"
  by (simp add: bullet_step_def Let_def split: list.splits)

lemma bullet_pass_targets:
  "map fst e1 = map fst e2 \<Longrightarrow>
   map fst (fst (foldl (bullet_step r1) (e1, k1) ls))
   = map fst (fst (foldl (bullet_step r2) (e2, k2) ls))"
proof (induction ls arbitrary: e1 e2 k1 k2)
  case Nil
  then show ?case by simp
next
  case (Cons l ls)
  obtain a1 b1 where s1: "bullet_step r1 (e1, k1) l = (a1, b1)"
    by (cases "bullet_step r1 (e1, k1) l")
  obtain a2 b2 where s2: "bullet_step r2 (e2, k2) l = (a2, b2)"
    by (cases "bullet_step r2 (e2, k2) l")
  from bullet_step_targets [OF Cons.prems, of r1 k1 l r2 k2] s1 s2
  have "map fst a1 = map fst a2" by simp
  from Cons.IH [OF this] s1 s2 show ?case by simp
qed

text \<open>The run of \<open>enhance_text\<close> on the one-line text \<open>"- Did"\<close>, pass by pass.\<close>

lemma did_weak: "foldl weak_step (u ''- Did'', []) WEAK_WORDS = (u ''- Did'', [])"
  by (simp add: WEAK_WORDS_def weak_step_def str_defs search_defs char_class_defs)

lemma did_cliches: "foldl (cliche_step (u ''- Did'')) [] RESUME_CLICHES = []"
  by (simp add: RESUME_CLICHES_def cliche_step_def str_defs char_class_defs)

lemma did_line:
  "split_on 10 (u ''- Did'') = [u ''- Did'']" "is_bullet_line (u ''- Did'')"
  "strip (drop (Suc 0) (strip (u ''- Did''))) = u ''Did''" "split (u ''Did'') = [u ''Did'']"
  by (simp_all add: is_bullet_line_def str_defs char_class_defs)

lemma did_no_verb: "\<not> is_action_verb (u ''Did'')"
  by (simp add: is_action_verb_def ACTION_VERBS_def rstrip_chars_def str_defs char_class_defs)

lemma did_scores:
  "category_scores (u ''Did'') =
     map (\<lambda>c. (u c, 0)) [''management'', ''communication'', ''research'', ''technical'',
                         ''teaching'', ''creative'', ''financial'']"
  by (simp add: category_scores_def ACTION_VERBS_def str_defs char_class_defs)

lemma did_category: "suggested_category (u ''Did'') = u ''management''"
  by (simp add: suggested_category_def did_scores)

lemma did_verbs:
  "choice id 0 (verbs_of (u ''management'')) = u ''Administered''"
  "choice Suc 0 (verbs_of (u ''management'')) = u ''Analyzed''"
  by (simp_all add: choice_def verbs_of_def ACTION_VERBS_def u_def)

lemma did_enhance:
  "enhance_text id (u ''- Did'') =
     (u ''- Did'', [(u ''Bullet point: Did'',
                    u ''Consider starting with an action verb like '' @ [39] @ u ''Administered'' @ [39])])"
  "enhance_text Suc (u ''- Did'') =
     (u ''- Did'', [(u ''Bullet point: Did'',
                    u ''Consider starting with an action verb like '' @ [39] @ u ''Analyzed'' @ [39])])"
proof -
  have t: "u ''Bullet point: '' @ u ''Did'' = u ''Bullet point: Did''"
    by (simp add: u_def)
  show "enhance_text id (u ''- Did'') =
     (u ''- Did'', [(u ''Bullet point: Did'',
                    u ''Consider starting with an action verb like '' @ [39] @ u ''Administered'' @ [39])])"
    by (simp add: enhance_text_def Let_def did_weak did_cliches did_line bullet_step_def
        did_no_verb did_category did_verbs t)
  show "enhance_text Suc (u ''- Did'') =
     (u ''- Did'', [(u ''Bullet point: Did'',
                    u ''Consider starting with an action verb like '' @ [39] @ u ''Analyzed'' @ [39])])"
    by (simp add: enhance_text_def Let_def did_weak did_cliches did_line bullet_step_def
        did_no_verb did_category did_verbs t)
qed

text \<open>
  Claim C9, as amended. The spelling corrector, the ATS scorer, the keyword fallback
  and the two line classifications read nothing but their arguments: their embeddings
  are functions of these alone. The text enhancer also reads the generator of
  \<open>random\<close>: two runs on one text return the same enhanced text and the same
  enhancements up to the notes, that is, the same targets in the same order; the verb
  named in a bullet's note depends on the generator.
\<close>

theorem enhance_text_random_only_in_notes:
  "fst (enhance_text r1 text) = fst (enhance_text r2 text)
   \<and> map fst (snd (enhance_text r1 text)) = map fst (snd (enhance_text r2 text))"
  using bullet_pass_targets [of "foldl (cliche_step (fst (foldl weak_step (text, []) WEAK_WORDS)))
            (snd (foldl weak_step (text, []) WEAK_WORDS)) RESUME_CLICHES" _ r1 0 _ r2 0]
  by (simp add: enhance_text_def Let_def case_prod_beta)

theorem enhance_text_random_only_in_notes_witness:
  "fst (enhance_text id (u ''- Did'')) = fst (enhance_text Suc (u ''- Did''))
   \<and> map fst (snd (enhance_text id (u ''- Did''))) = [u ''Bullet point: Did'']
   \<and> map fst (snd (enhance_text Suc (u ''- Did''))) = [u ''Bullet point: Did'']"
  using enhance_text_random_only_in_notes [of id "u ''- Did''" Suc]
  by (simp add: did_enhance)

theorem enhance_text_not_pure_counterexample:
  "snd (enhance_text id (u ''- Did'')) =
     [(u ''Bullet point: Did'',
       u ''Consider starting with an action verb like '' @ [39] @ u ''Administered'' @ [39])]
   \<and> snd (enhance_text Suc (u ''- Did'')) =
     [(u ''Bullet point: Did'',
       u ''Consider starting with an action verb like '' @ [39] @ u ''Analyzed'' @ [39])]
   \<and> enhance_text id (u ''- Did'') \<noteq> enhance_text Suc (u ''- Did'')"
proof -
  have "enhance_text id (u ''- Did'') \<noteq> enhance_text Suc (u ''- Did'')"
    unfolding did_enhance by (simp add: u_def)
  then show ?thesis by (simp add: did_enhance)
qed

section \<open>Properties of the keyword fallback\<close>

lemma before_Cons:
  "a \<noteq> x \<Longrightarrow> b \<noteq> x \<Longrightarrow> before f (x # xs) a b = before f xs a b"
  by (simp add: before_def)

lemma before_head: "f x \<le> f b \<Longrightarrow> b \<noteq> x \<Longrightarrow> before f (x # xs) x b"
  by (auto simp add: before_def)

lemma before_le: "before f xs a b \<Longrightarrow> f a \<le> f b"
  by (auto simp add: before_def)

lemma insort_before:
  "sorted_wrt (before f xs) l \<Longrightarrow> x \<notin> set l \<Longrightarrow>
   sorted_wrt (before f (x # xs)) (insort_key f x l)"
proof (induction l)
  case Nil
  then show ?case by simp
next
  case (Cons y ys)
  have tail: "sorted_wrt (before f (x # xs)) (y # ys)"
  proof (rule sorted_wrt_mono_rel [OF _ Cons.prems(1)])
    fix a b
    assume "a \<in> set (y # ys)" "b \<in> set (y # ys)" "before f xs a b"
    with Cons.prems(2) show "before f (x # xs) a b"
      by (subst before_Cons) auto
  qed
  show ?case
  proof (cases "f x \<le> f y")
    case True
    have "\<forall>z \<in> set (y # ys). before f (x # xs) x z"
    proof
      fix z assume z: "z \<in> set (y # ys)"
      then have "f y \<le> f z" using Cons.prems(1) by (auto dest: before_le)
      with True z Cons.prems(2) show "before f (x # xs) x z"
        by (intro before_head) auto
    qed
    with True tail show ?thesis by simp
  next
    case False
    then have "before f (x # xs) y x" by (simp add: before_def)
    moreover have "sorted_wrt (before f (x # xs)) (insort_key f x ys)"
      using Cons by simp
    moreover have "\<forall>z \<in> set ys. before f (x # xs) y z"
      using tail by simp
    ultimately show ?thesis using False by (auto simp add: set_insort_key)
  qed
qed

lemma sort_key_before:
  "distinct xs \<Longrightarrow> sorted_wrt (before f xs) (sort_key f xs)"
proof (induction xs)
  case Nil
  then show ?case by simp
next
  case (Cons x xs)
  then have "sorted_wrt (before f xs) (sort_key f xs)" "x \<notin> set (sort_key f xs)"
    by simp_all
  from insort_before [OF this] show ?case by simp
qed


lemma outranks_before: "outranks items = before (\<lambda>item. - int (snd item)) items"
  by (auto simp add: outranks_def before_def fun_eq_iff)

lemma sorted_by_count_outranks:
  "distinct items \<Longrightarrow> sorted_wrt (outranks items) (sorted_by_count items)"
  by (simp add: outranks_before sorted_by_count_def sort_key_before)

lemma keys_add_count:
  "map fst (add_count n m key)
   = (if key \<in> set (map fst m) then map fst m else map fst m @ [key])"
  by (induction m) (simp, fastforce)

lemma map_of_add_count:
  "map_of (add_count n m key) k = (if k = key then Some (count_of m k + n) else map_of m k)"
  by (induction m) (auto simp add: count_of_def)

lemma count_of_add_count:
  "count_of (add_count n m key) k = (if k = key then count_of m k + n else count_of m k)"
  by (simp add: count_of_def map_of_add_count)

lemma distinct_add_count: "distinct (map fst m) \<Longrightarrow> distinct (map fst (add_count n m key))"
  by (simp add: keys_add_count)

lemma count_of_foldl:
  "count_of (foldl (add_count n) m ks) k = count_of m k + n * count_list ks k"
  by (induction ks arbitrary: m) (auto simp add: count_of_add_count)

lemma distinct_foldl:
  "distinct (map fst m) \<Longrightarrow> distinct (map fst (foldl (add_count n) m ks))"
  by (induction ks arbitrary: m) (auto simp add: distinct_add_count)

lemma filter_removeAll: "filter P (removeAll x xs) = removeAll x (filter P xs)"
  by (induction xs) auto

lemma filter_removeAll_out: "\<not> P x \<Longrightarrow> filter P (removeAll x xs) = filter P xs"
  by (induction xs) auto

lemma keys_foldl:
  "map fst (foldl (add_count n) m ks)
   = map fst m @ filter (\<lambda>k. k \<notin> set (map fst m)) (first_seen ks)"
proof (induction ks arbitrary: m)
  case Nil
  then show ?case by simp
next
  case (Cons k ks)
  have r: "filter (\<lambda>x. x \<noteq> k \<and> x \<notin> fst ` set m) xs
           = removeAll k (filter (\<lambda>x. x \<notin> fst ` set m) xs)" for xs :: "pystr list"
    by (induction xs) auto
  show ?case
  proof (cases "k \<in> set (map fst m)")
    case True
    then have "filter (\<lambda>x. x \<notin> set (map fst m)) (removeAll k (first_seen ks))
               = filter (\<lambda>x. x \<notin> set (map fst m)) (first_seen ks)"
      by (intro filter_removeAll_out) simp
    with True show ?thesis by (simp add: Cons.IH keys_add_count)
  next
    case False
    then show ?thesis
      by (simp add: Cons.IH keys_add_count filter_removeAll r)
  qed
qed

lemma word_counts_distinct: "distinct (map fst (word_counts jd))"
  by (simp add: word_counts_def distinct_foldl)

lemma word_counts_keys:
  "map fst (word_counts jd) = first_seen (potential_keywords jd @ word_pairs jd)"
proof -
  have a: "first_seen (xs @ ys) = first_seen xs @ filter (\<lambda>k. k \<notin> set (first_seen xs)) (first_seen ys)"
    for xs ys :: "pystr list"
  proof (induction xs)
    case Nil
    show ?case by simp
  next
    case (Cons x xs)
    have "removeAll x (filter (\<lambda>k. k \<notin> set (first_seen xs)) zs)
          = filter (\<lambda>k. k \<noteq> x \<and> k \<notin> set (removeAll x (first_seen xs))) zs" for zs
      by (induction zs) auto
    with Cons show ?case by (simp cong: conj_cong)
  qed
  show ?thesis
    by (simp add: word_counts_def keys_foldl a)
qed

lemma word_counts_count:
  "count_of (word_counts jd) k
   = count_list (potential_keywords jd) k + 3 * count_list (word_pairs jd) k"
proof -
  have "count_of [] k = 0" by (simp add: count_of_def)
  then show ?thesis by (simp add: word_counts_def count_of_foldl)
qed

lemma word_counts_item:
  assumes "item \<in> set (word_counts jd)"
  shows "snd item = count_list (potential_keywords jd) (fst item)
                    + 3 * count_list (word_pairs jd) (fst item)"
proof -
  obtain k c where i: "item = (k, c)" by (cases item)
  with assms word_counts_distinct [of jd] have "map_of (word_counts jd) k = Some c"
    by simp
  then have "count_of (word_counts jd) k = c" by (simp add: count_of_def)
  with i show ?thesis by (simp add: word_counts_count)
qed

text \<open>
  Claim C6. The fallback returns at most 20 terms; they are the first terms of the
  table of counted terms sorted by falling count, terms of equal count staying in the
  order in which they entered the table (single words in the order of their first
  occurrence, then word pairs likewise); the count of a term is the number of its
  occurrences as a kept token plus three times the number of its occurrences as a
  pair. The list depends on the job description only: whichever way the service
  fails, the function returns this list.
\<close>

theorem keyword_fallback_ranked:
  "length (fallback_keywords jd) \<le> 20
   \<and> fallback_keywords jd = map fst (take 20 (sorted_by_count (word_counts jd)))
   \<and> sorted_wrt (outranks (word_counts jd)) (sorted_by_count (word_counts jd))
   \<and> set (sorted_by_count (word_counts jd)) = set (word_counts jd)
   \<and> length (sorted_by_count (word_counts jd)) = length (word_counts jd)
   \<and> map fst (word_counts jd) = first_seen (potential_keywords jd @ word_pairs jd)
   \<and> (\<forall>item \<in> set (word_counts jd).
         snd item = count_list (potential_keywords jd) (fst item)
                    + 3 * count_list (word_pairs jd) (fst item))
   \<and> extract_keywords_from_job_description Request_failed jd = fallback_keywords jd
   \<and> extract_keywords_from_job_description Status_not_200 jd = fallback_keywords jd
   \<and> extract_keywords_from_job_description Malformed_body jd = fallback_keywords jd"
proof -
  have "distinct (word_counts jd)"
    using word_counts_distinct [of jd] by (simp add: distinct_map)
  then have "sorted_wrt (outranks (word_counts jd)) (sorted_by_count (word_counts jd))"
    by (rule sorted_by_count_outranks)
  moreover have "length (fallback_keywords jd) \<le> 20"
    by (simp add: fallback_keywords_def)
  moreover have "set (sorted_by_count (word_counts jd)) = set (word_counts jd)"
    "length (sorted_by_count (word_counts jd)) = length (word_counts jd)"
    by (simp_all add: sorted_by_count_def)
  ultimately show ?thesis
    using word_counts_keys [of jd] word_counts_item [of _ jd]
    by (simp add: fallback_keywords_def extract_keywords_from_job_description_def)
qed

lemma python_sql_tokens:
  "findall_tokens None (lower (u ''Python and SQL. Python developer''))
   = [u ''python'', u ''and'', u ''sql'', u ''python'', u ''developer'']"
  by (simp add: str_defs char_class_defs boundary_def tok_start_def tok_char_def)

lemma python_sql_words:
  "split (lower (u ''Python and SQL. Python developer''))
   = [u ''python'', u ''and'', u ''sql.'', u ''python'', u ''developer'']"
  by (simp add: str_defs char_class_defs)

lemma python_sql_common:
  "is_common (u ''and'')" "\<not> is_common (u ''python'')" "\<not> is_common (u ''sql'')"
  "\<not> is_common (u ''sql.'')" "\<not> is_common (u ''developer'')"
  by (simp_all add: is_common_def common_words_def u_def)

lemma python_sql_counts:
  "word_counts (u ''Python and SQL. Python developer'')
   = [(u ''python'', 2), (u ''sql'', 1), (u ''developer'', 1),
      (u ''sql. python'', 3), (u ''python developer'', 3)]"
proof -
  have "potential_keywords (u ''Python and SQL. Python developer'')
        = [u ''python'', u ''sql'', u ''python'', u ''developer'']"
    by (simp add: potential_keywords_def python_sql_tokens python_sql_common) (simp add: u_def)
  moreover have "word_pairs (u ''Python and SQL. Python developer'')
        = [u ''sql. python'', u ''python developer'']"
    by (simp add: word_pairs_def python_sql_words python_sql_common) (simp add: u_def)
  ultimately show ?thesis
    by (simp add: word_counts_def) (simp add: u_def)
qed

theorem keyword_fallback_ranked_witness:
  "fallback_keywords (u ''Python and SQL. Python developer'')
     = [u ''sql. python'', u ''python developer'', u ''python'', u ''sql'', u ''developer'']
   \<and> extract_keywords_from_job_description Status_not_200 (u ''Python and SQL. Python developer'')
     = [u ''sql. python'', u ''python developer'', u ''python'', u ''sql'', u ''developer'']
   \<and> sorted_wrt (outranks (word_counts (u ''Python and SQL. Python developer'')))
        [(u ''sql. python'', 3), (u ''python developer'', 3), (u ''python'', 2),
         (u ''sql'', 1), (u ''developer'', 1)]"
proof -
  have s: "sorted_by_count (word_counts (u ''Python and SQL. Python developer''))
        = [(u ''sql. python'', 3), (u ''python developer'', 3), (u ''python'', 2),
           (u ''sql'', 1), (u ''developer'', 1)]"
    by (simp add: python_sql_counts sorted_by_count_def)
  from keyword_fallback_ranked [of "u ''Python and SQL. Python developer''"]
  show ?thesis by (simp add: s)
qed

section \<open>Whole-word substitution of lexicon entries\<close>

lemma lower_low: "low p \<Longrightarrow> lower_cp p = p"
  by (auto simp add: low_def is_letter_def lower_cp_def is_upper_def)

lemma ci_eq_low: "low p \<Longrightarrow> ci_eq c p \<longleftrightarrow> lower_cp c = p"
  by (simp add: ci_eq_def lower_low)

lemma ci_eq_letter_word: "is_letter p \<Longrightarrow> ci_eq c p \<Longrightarrow> is_word c"
proof -
  assume p: "is_letter p" and "ci_eq c p"
  then have l: "lower_cp c = p" by (simp add: ci_eq_low low_def)
  show "is_word c"
  proof (cases "is_upper c")
    case True
    then show ?thesis by (simp add: is_word_def)
  next
    case False
    with l p show ?thesis by (simp add: lower_cp_def is_letter_def is_word_def is_lower_def)
  qed
qed

lemma ci_eq_space: "ci_eq c 32 \<longleftrightarrow> c = 32"
  by (auto simp add: ci_eq_def lower_cp_def is_upper_def)

lemma space_not_word: "\<not> is_word 32"
  by (simp add: is_word_def is_upper_def is_lower_def is_digit_def)

lemma letter_word: "is_letter c \<Longrightarrow> is_word c"
  by (simp add: is_letter_def is_word_def is_lower_def)


lemma ci_eq_low_low: "low p \<Longrightarrow> low x \<Longrightarrow> ci_eq x p \<Longrightarrow> x = p"
  by (simp add: ci_eq_def lower_low)




lemma search_from_prev: "word_at p1 = word_at p2 \<Longrightarrow> search_from k p1 s = search_from k p2 s"
  by (cases s) (auto simp add: match_at_def boundary_def last_matched_def)

lemma lit_match_last_word:
  "plain_tail p ps \<Longrightarrow> ci_eq c p \<Longrightarrow> lit_match ps cs \<Longrightarrow>
   word_at (head_opt (drop (length ps) (c # cs)))"
proof (induction ps arbitrary: p c cs)
  case Nil
  then show ?case by (auto dest: ci_eq_letter_word)
next
  case (Cons p' ps')
  then obtain c' cs' where "cs = c' # cs'" by (cases cs) auto
  with Cons show ?case by (auto simp add: low_def ci_eq_space)
qed

lemma match_at_plain:
  assumes "plain k"
  shows "match_at k prev s \<longleftrightarrow> \<not> word_at prev \<and> lit_match k s \<and> nw (drop (length k) s)"
proof (cases "lit_match k s")
  case False
  then show ?thesis by (simp add: match_at_def)
next
  case True
  from assms obtain p ps where k: "k = p # ps" "is_letter p" "plain_tail p ps"
    by (cases k) auto
  with True obtain c cs where s: "s = c # cs" "ci_eq c p" "lit_match ps cs"
    by (cases s) auto
  have "is_word c" using k s by (auto dest: ci_eq_letter_word)
  moreover have "word_at (head_opt (drop (length ps) (c # cs)))"
    using k s by (intro lit_match_last_word)
  ultimately show ?thesis
    using True by (simp add: match_at_def boundary_def last_matched_def k s nw_def)
qed



lemma plain_not_Nil: "plain k \<Longrightarrow> k \<noteq> []"
  by (cases k) auto




lemma sub_from_prev:
  "plain w \<Longrightarrow> word_at p1 = word_at p2 \<Longrightarrow> sub_from w r p1 s = sub_from w r p2 s"
  by (cases s) (auto simp add: match_at_plain last_matched_def dest: plain_not_Nil)




































section \<open>Weak words\<close>














section \<open>Idempotence of the spelling corrector\<close>












end
